theory Spec2Isabelle
  imports Main "HOL-Library.AList"
begin

section \<open>The workflow orchestrator of \<^verbatim>\<open>server.py\<close>\<close>

text \<open>
  The program is one Python module: eight specialist tools, each a single call to a
  text-generation service, the tool \<^verbatim>\<open>orchestrator\<close> that asks the same service for a plan
  and runs the plan's steps, and a few utility tools. All of them share the module-level
  dictionary \<^verbatim>\<open>project_state\<close>.

  What the embedding keeps, for the eight workers, \<^verbatim>\<open>orchestrator\<close> and \<^verbatim>\<open>reset_project\<close>: every
  branch, every early return, every \<^verbatim>\<open>try/except\<close> around a call of the generation service,
  every read and write of \<^verbatim>\<open>project_state\<close>, the two local collections \<^verbatim>\<open>results\<close> and
  \<^verbatim>\<open>workflow_outputs\<close> of the orchestrator, what the orchestrator prints and what is sent to
  the generation service. What it abbreviates: the fixed wording of prompts and banners
  (emoji, rule lines, the lines that only repeat an argument), which carries no control
  flow. A prompt is represented by the values that fill its holes, in order of appearance.
  Texts are ASCII, so the length of a text is its number of characters. The tools that only
  read the state (status, summary, export) are left out.
\<close>

subsection \<open>Python values\<close>

text \<open>
  A parameter of a plan step, as the tools' signatures type them: \<^verbatim>\<open>None\<close>, a string, or a
  list of strings (\<^verbatim>\<open>focus_areas\<close>).
\<close>

datatype pval = PNone | PStr string | PList "string list"

text \<open>\<^verbatim>\<open>d.get(k, default)\<close> on the optional result of the lookup.\<close>

definition getd :: "'a option \<Rightarrow> 'a \<Rightarrow> 'a" where
  "getd x d = (case x of None \<Rightarrow> d | Some v \<Rightarrow> v)"

text \<open>Python's truth value of a parameter: \<^verbatim>\<open>None\<close>, \<^verbatim>\<open>""\<close> and \<^verbatim>\<open>[]\<close> are false.\<close>

fun truthy :: "pval \<Rightarrow> bool" where
  "truthy PNone = False"
| "truthy (PStr s) = (s \<noteq> [])"
| "truthy (PList xs) = (xs \<noteq> [])"

text \<open>\<^verbatim>\<open>v if v else "d"\<close>.\<close>

definition or_else :: "pval \<Rightarrow> string \<Rightarrow> pval" where
  "or_else v d = (if truthy v then v else PStr d)"

text \<open>A field of \<^verbatim>\<open>project_state\<close> (a string or \<^verbatim>\<open>None\<close>) read as a value.\<close>

definition of_field :: "string option \<Rightarrow> pval" where
  "of_field x = (case x of None \<Rightarrow> PNone | Some s \<Rightarrow> PStr s)"

text \<open>The elements a \<^verbatim>\<open>for\<close> loop or \<^verbatim>\<open>join\<close> sees: the characters of a string, the items of a list.\<close>

fun items :: "pval \<Rightarrow> string list" where
  "items PNone = []"
| "items (PStr s) = map (\<lambda>c. [c]) s"
| "items (PList xs) = xs"

fun join :: "string \<Rightarrow> string list \<Rightarrow> string" where
  "join sep [] = []"
| "join sep [x] = x"
| "join sep (x # y # ys) = x @ sep @ join sep (y # ys)"

text \<open>
  \<^verbatim>\<open>v[:n]\<close> on a string or a list. It is applied below only to a value that is not
  \<^verbatim>\<open>None\<close>; where the source slices a value that can be \<^verbatim>\<open>None\<close>, the worker's definition
  has the \<^verbatim>\<open>TypeError\<close> as a branch of its own.
\<close>

fun slice :: "nat \<Rightarrow> pval \<Rightarrow> pval" where
  "slice n PNone = PNone"
| "slice n (PStr s) = PStr (take n s)"
| "slice n (PList xs) = PList (take n xs)"

subsection \<open>The shared project state\<close>

text \<open>
  The dictionary \<^verbatim>\<open>project_state\<close> has eight keys, none of which is ever deleted.
  \<^verbatim>\<open>current_project\<close> holds whatever \<^verbatim>\<open>product_analyst\<close> was given as \<^verbatim>\<open>user_request\<close>;
  \<^verbatim>\<open>code_modules\<close> is a dictionary in insertion order whose keys are the module names
  given to \<^verbatim>\<open>senior_developer\<close>.
\<close>

record project_state =
  current_project :: pval
  requirements :: "string option"
  architecture :: "string option"
  tech_stack :: "string option"
  implementation_plan :: "string option"
  code_modules :: "(pval \<times> string) list"
  testing_results :: "string option"
  deployment_plan :: "string option"

text \<open>The value of \<^verbatim>\<open>project_state\<close> when the module is loaded.\<close>

definition initial_state :: project_state where
  "initial_state =
     \<lparr>current_project = PNone, requirements = None, architecture = None, tech_stack = None,
      implementation_plan = None, code_modules = [], testing_results = None,
      deployment_plan = None\<rparr>"

text \<open>The tool \<^verbatim>\<open>reset_project\<close>: eight assignments and a fixed message.\<close>

definition reset_project :: "project_state \<Rightarrow> string \<times> project_state" where
  "reset_project s =
     (''Project state reset successfully. Ready for a new project!'',
      s\<lparr>current_project := PNone, requirements := None, architecture := None,
        tech_stack := None, implementation_plan := None, code_modules := [],
        testing_results := None, deployment_plan := None\<rparr>)"

text \<open>
  The six assignments at the head of \<^verbatim>\<open>orchestrator\<close> (``Reset project state for new
  project''): \<^verbatim>\<open>tech_stack\<close> and \<^verbatim>\<open>testing_results\<close> are not among them.
\<close>

definition run_start_reset :: "string \<Rightarrow> project_state \<Rightarrow> project_state" where
  "run_start_reset user_request s =
     s\<lparr>current_project := PStr user_request, requirements := None, architecture := None,
       implementation_plan := None, code_modules := [], deployment_plan := None\<rparr>"

subsection \<open>Collaborators and effects\<close>

text \<open>
  One call of \<^verbatim>\<open>gemini_model.generate_content(...)\<close> followed by reading \<^verbatim>\<open>.text\<close>: it
  gives a text or raises, the exception's message being kept.
\<close>

datatype gen_result = Text string | Fails string

text \<open>
  What one worker invocation gets from outside: the clock reading that goes into its
  report and the generation service's answer. The web searches of \<^verbatim>\<open>research_engineer\<close>,
  each inside its own \<^verbatim>\<open>try/except\<close>, only feed its prompt and are not modelled.
\<close>

record worker_env =
  now :: string
  reply :: gen_result

text \<open>
  Observable effects other than the state: a line printed, the line printed when a step
  of the workflow starts, a prompt sent by the named caller.
\<close>

datatype event = Printed string | Executing int string | Generate string "pval list"

record world =
  project_state :: project_state
  trace :: "event list"

definition generate :: "string \<Rightarrow> pval list \<Rightarrow> world \<Rightarrow> world" where
  "generate who holes w = w\<lparr>trace := trace w @ [Generate who holes]\<rparr>"

text \<open>A call of a tool either returns a string or raises; in both cases the world goes on.\<close>

datatype outcome = Returned string | Raised string

text \<open>The banner of a successful report: title, time stamp, generated text.\<close>

definition report :: "string \<Rightarrow> string \<Rightarrow> string \<Rightarrow> string" where
  "report title time body = title @ '' - Generated: '' @ time @ '' - '' @ body"

text \<open>The message of the \<^verbatim>\<open>TypeError\<close> of \<^verbatim>\<open>None[:n]\<close>, and of hashing a list.\<close>

definition not_subscriptable :: string where
  "not_subscriptable = ''NoneType object is not subscriptable''"

definition unhashable :: string where
  "unhashable = ''unhashable type: list''"

subsection \<open>The eight workers\<close>

text \<open>
  Every worker first checks \<^verbatim>\<open>GEMINI_AVAILABLE\<close>, builds its prompt (outside any
  \<^verbatim>\<open>try\<close>, so a failure there is raised to the caller), then calls the service inside
  \<^verbatim>\<open>try/except Exception\<close>, where a failure becomes a returned error text.
\<close>

definition product_analyst ::
  "bool \<Rightarrow> pval \<Rightarrow> pval \<Rightarrow> worker_env \<Rightarrow> world \<Rightarrow> outcome \<times> world" where
  "product_analyst avail user_request additional_context e w =
     (if \<not> avail then (Returned ''Product Analyst requires Gemini AI'', w)
      else
        let w1 = generate ''product_analyst''
                   [user_request, or_else additional_context ''None provided''] w
        in case reply e of
             Fails m \<Rightarrow> (Returned (''Product Analyst Error: '' @ m), w1)
           | Text t \<Rightarrow>
               (Returned (report ''PRODUCT ANALYST REPORT'' (now e) t),
                w1\<lparr>project_state := (project_state w1)
                      \<lparr>requirements := Some t, current_project := user_request\<rparr>\<rparr>))"

definition research_engineer ::
  "bool \<Rightarrow> pval \<Rightarrow> pval \<Rightarrow> worker_env \<Rightarrow> world \<Rightarrow> outcome \<times> world" where
  "research_engineer avail topic focus_areas e w =
     (if \<not> avail then (Returned ''Research Engineer requires Gemini AI'', w)
      else
        let w1 = generate ''research_engineer''
                   [topic,
                    if truthy focus_areas then PStr (join '', '' (items focus_areas))
                    else PStr ''General best practices''] w
        in case reply e of
             Fails m \<Rightarrow> (Returned (''Research Engineer Error: '' @ m), w1)
           | Text t \<Rightarrow> (Returned (report ''RESEARCH ENGINEER REPORT'' (now e) t), w1))"

definition software_architect ::
  "bool \<Rightarrow> pval \<Rightarrow> pval \<Rightarrow> worker_env \<Rightarrow> world \<Rightarrow> outcome \<times> world" where
  "software_architect avail requirements' research_findings e w =
     (if \<not> avail then (Returned ''Software Architect requires Gemini AI'', w)
      else
        let r = (if \<not> truthy requirements'
                 then of_field (requirements (project_state w)) else requirements');
            w1 = generate ''software_architect''
                   [r, or_else research_findings ''Use your expertise for technology choices''] w
        in case reply e of
             Fails m \<Rightarrow> (Returned (''Software Architect Error: '' @ m), w1)
           | Text t \<Rightarrow>
               (Returned (report ''SOFTWARE ARCHITECT DESIGN DOCUMENT'' (now e) t),
                w1\<lparr>project_state := (project_state w1)\<lparr>architecture := Some t\<rparr>\<rparr>))"

definition technical_lead ::
  "bool \<Rightarrow> pval \<Rightarrow> worker_env \<Rightarrow> world \<Rightarrow> outcome \<times> world" where
  "technical_lead avail architecture' e w =
     (if \<not> avail then (Returned ''Technical Lead requires Gemini AI'', w)
      else
        let a = (if \<not> truthy architecture'
                 then of_field (architecture (project_state w)) else architecture');
            w1 = generate ''technical_lead'' [a] w
        in case reply e of
             Fails m \<Rightarrow> (Returned (''Technical Lead Error: '' @ m), w1)
           | Text t \<Rightarrow>
               (Returned (report ''TECHNICAL LEAD IMPLEMENTATION PLAN'' (now e) t),
                w1\<lparr>project_state := (project_state w1)\<lparr>implementation_plan := Some t\<rparr>\<rparr>))"

text \<open>
  \<^verbatim>\<open>senior_developer\<close> slices \<^verbatim>\<open>project_state.get('architecture', 'See specifications')\<close>
  while building its prompt. The key is always present, so the default is never taken and
  an architecture of \<^verbatim>\<open>None\<close> raises. Storing the module under a list as key raises inside
  the \<^verbatim>\<open>try\<close>.
\<close>

definition senior_developer ::
  "bool \<Rightarrow> pval \<Rightarrow> pval \<Rightarrow> pval \<Rightarrow> worker_env \<Rightarrow> world \<Rightarrow> outcome \<times> world" where
  "senior_developer avail module_name specifications language e w =
     (if \<not> avail then (Returned ''Senior Developer requires Gemini AI'', w)
      else case architecture (project_state w) of
        None \<Rightarrow> (Raised not_subscriptable, w)
      | Some a \<Rightarrow>
          (let w1 = generate ''senior_developer''
                      [module_name, language, specifications, PStr (take 1000 a)] w
           in case reply e of
                Fails m \<Rightarrow> (Returned (''Senior Developer Error: '' @ m), w1)
              | Text t \<Rightarrow>
                  (case module_name of
                     PList xs \<Rightarrow> (Returned (''Senior Developer Error: '' @ unhashable), w1)
                   | _ \<Rightarrow>
                       (Returned (report ''SENIOR DEVELOPER - MODULE IMPLEMENTATION'' (now e) t),
                        w1\<lparr>project_state := (project_state w1)
                              \<lparr>code_modules :=
                                 AList.update module_name t (code_modules (project_state w1))\<rparr>\<rparr>))))"

text \<open>
  The code under test, when not given:
  \<^verbatim>\<open>project_state.get("code_modules", {}).get(module_name, "No code available")\<close>.
\<close>

definition stored_code :: "pval \<Rightarrow> project_state \<Rightarrow> string + pval" where
  "stored_code module_name s =
     (case module_name of
        PList xs \<Rightarrow> Inl unhashable
      | _ \<Rightarrow> Inr (PStr (getd (map_of (code_modules s) module_name) ''No code available'')))"

definition qa_engineer ::
  "bool \<Rightarrow> pval \<Rightarrow> pval \<Rightarrow> pval \<Rightarrow> worker_env \<Rightarrow> world \<Rightarrow> outcome \<times> world" where
  "qa_engineer avail module_name code test_type e w =
     (if \<not> avail then (Returned ''QA Engineer requires Gemini AI'', w)
      else case (if \<not> truthy code then stored_code module_name (project_state w) else Inr code) of
        Inl m \<Rightarrow> (Raised m, w)
      | Inr code' \<Rightarrow>
          (case architecture (project_state w) of
             None \<Rightarrow> (Raised not_subscriptable, w)
           | Some a \<Rightarrow>
               (let w1 = generate ''qa_engineer''
                           [module_name, test_type, slice 6000 code', PStr (take 1000 a)] w
                in case reply e of
                     Fails m \<Rightarrow> (Returned (''QA Engineer Error: '' @ m), w1)
                   | Text t \<Rightarrow> (Returned (report ''QA ENGINEER - TEST SUITE'' (now e) t), w1))))"

definition devops_engineer ::
  "bool \<Rightarrow> pval \<Rightarrow> pval \<Rightarrow> worker_env \<Rightarrow> world \<Rightarrow> outcome \<times> world" where
  "devops_engineer avail environment deployment_type e w =
     (if \<not> avail then (Returned ''DevOps Engineer requires Gemini AI'', w)
      else case architecture (project_state w) of
        None \<Rightarrow> (Raised not_subscriptable, w)
      | Some a \<Rightarrow>
          (let w1 = generate ''devops_engineer''
                      [environment, deployment_type, PStr (take 2000 a)] w
           in case reply e of
                Fails m \<Rightarrow> (Returned (''DevOps Engineer Error: '' @ m), w1)
              | Text t \<Rightarrow>
                  (Returned (report ''DEVOPS ENGINEER - DEPLOYMENT CONFIGURATION'' (now e) t),
                   w1\<lparr>project_state := (project_state w1)\<lparr>deployment_plan := Some t\<rparr>\<rparr>)))"

text \<open>
  \<^verbatim>\<open>documentation_specialist\<close> slices the requirements, the architecture and the
  implementation plan, in this order, while building its context.
\<close>

definition documentation_specialist ::
  "bool \<Rightarrow> pval \<Rightarrow> worker_env \<Rightarrow> world \<Rightarrow> outcome \<times> world" where
  "documentation_specialist avail doc_type e w =
     (if \<not> avail then (Returned ''Documentation Specialist requires Gemini AI'', w)
      else case requirements (project_state w) of
        None \<Rightarrow> (Raised not_subscriptable, w)
      | Some r \<Rightarrow>
          (case architecture (project_state w) of
             None \<Rightarrow> (Raised not_subscriptable, w)
           | Some a \<Rightarrow>
               (case implementation_plan (project_state w) of
                  None \<Rightarrow> (Raised not_subscriptable, w)
                | Some p \<Rightarrow>
                    (let w1 = generate ''documentation_specialist''
                                [doc_type, current_project (project_state w),
                                 PStr (take 2000 r), PStr (take 2000 a), PStr (take 1000 p)] w
                     in case reply e of
                          Fails m \<Rightarrow> (Returned (''Documentation Specialist Error: '' @ m), w1)
                        | Text t \<Rightarrow>
                            (Returned
                               (report ''DOCUMENTATION SPECIALIST - PROJECT DOCUMENTATION'' (now e) t),
                             w1)))))"

subsection \<open>The plan\<close>

text \<open>
  The plan is the JSON object found in the planner's answer. Every key is read with
  \<^verbatim>\<open>.get\<close>, so each field is optional; a present field has the type the planner's prompt
  asks for. No function of the program checks a plan.
\<close>

record step_info =
  step :: "int option"
  agent :: "string option"
  parameters :: "(string \<rightharpoonup> pval) option"
  reason :: "string option"
  estimated_time :: "string option"
  depends_on :: "int list option"

record plan =
  project_name :: "string option"
  complexity :: "string option"
  analysis :: "string option"
  estimated_total_time :: "string option"
  success_criteria :: "string list option"
  team_workflow :: "step_info list option"
  key_modules :: "string list option"

text \<open>
  The outcome of the first \<^verbatim>\<open>try\<close> block of \<^verbatim>\<open>orchestrator\<close>: the answer holds no
  \<^verbatim>\<open>{...}\<close> (the answer is kept), or the call, \<^verbatim>\<open>.text\<close> or \<^verbatim>\<open>json.loads\<close> raises (the
  message is kept), or a plan is read.
\<close>

datatype planner_result = NoJson string | AnalysisFails string | Parsed plan

text \<open>Everything a run of the orchestrator gets from outside.\<close>

record env =
  gemini_available :: bool
  planner_reply :: planner_result
  worker_envs :: "nat \<Rightarrow> worker_env"
  summary_reply :: gen_result
  start_time :: string
  end_time :: string

subsection \<open>The orchestrator\<close>

text \<open>
  The returned text, as the sequence of the parts the source returns or appends to
  \<^verbatim>\<open>plan_summary\<close>. Agent names and the complexity are upper-cased when rendered.
\<close>

datatype piece =
    Unavailable
  | CouldNotParse string
  | AnalysisError string
  | PlanHeader string string string string string "string list" nat
  | WorkflowStep int string string string "int list"
  | KeyModules "string list"
  | Hint
  | ExecutingBanner
  | StepBanner int string
  | Preview string
  | ErrorLine string
  | DeliverySummary string
  | SummaryError string
  | Complete string nat nat

text \<open>Step 2 of \<^verbatim>\<open>orchestrator\<close>: the plan as shown.\<close>

definition show_step :: "step_info \<Rightarrow> piece" where
  "show_step step_info =
     WorkflowStep (getd (step step_info) 0) (getd (agent step_info) ''unknown'')
       (getd (estimated_time step_info) ''Unknown'')
       (getd (reason step_info) ''No reason provided'')
       (getd (depends_on step_info) [])"

definition show_plan :: "env \<Rightarrow> plan \<Rightarrow> piece list" where
  "show_plan env plan =
     [PlanHeader (start_time env)
        (getd (project_name plan) ''Unnamed Project'')
        (getd (complexity plan) ''Unknown'')
        (getd (estimated_total_time plan) ''Unknown'')
        (getd (analysis plan) ''No analysis provided'')
        (getd (success_criteria plan) [])
        (length (getd (team_workflow plan) []))]
     @ map show_step (getd (team_workflow plan) [])
     @ (case key_modules plan of
          None \<Rightarrow> []
        | Some ms \<Rightarrow> if ms = [] then [] else [KeyModules ms])"

text \<open>
  The dispatch inside the loop of step 3: an \<^verbatim>\<open>if/elif\<close> chain on the agent's name, each
  branch reading the worker's arguments from the step's parameters with the source's
  defaults. A name that is none of the eight gives the text \<^verbatim>\<open>Unknown agent\<close> as the result.
\<close>

definition run_agent ::
  "bool \<Rightarrow> string \<Rightarrow> string \<Rightarrow> (string \<rightharpoonup> pval) \<Rightarrow> worker_env \<Rightarrow> world
     \<Rightarrow> outcome \<times> world" where
  "run_agent avail user_request agent_name params e w =
     (if agent_name = ''product_analyst'' then
        product_analyst avail
          (getd (params ''user_request'') (PStr user_request))
          (getd (params ''additional_context'') (PStr [])) e w
      else if agent_name = ''research_engineer'' then
        research_engineer avail
          (getd (params ''topic'') (PStr user_request))
          (getd (params ''focus_areas'') (PList [])) e w
      else if agent_name = ''software_architect'' then
        software_architect avail
          (getd (params ''requirements'') PNone)
          (getd (params ''research_findings'') PNone) e w
      else if agent_name = ''technical_lead'' then
        technical_lead avail (getd (params ''architecture'') PNone) e w
      else if agent_name = ''senior_developer'' then
        senior_developer avail
          (getd (params ''module_name'') (PStr ''main_module''))
          (getd (params ''specifications'') (PStr ''Implement according to architecture''))
          (getd (params ''language'') (PStr ''python'')) e w
      else if agent_name = ''qa_engineer'' then
        qa_engineer avail
          (getd (params ''module_name'') (PStr ''main_module''))
          (getd (params ''code'') PNone)
          (getd (params ''test_type'') (PStr ''comprehensive'')) e w
      else if agent_name = ''devops_engineer'' then
        devops_engineer avail
          (getd (params ''environment'') (PStr ''production''))
          (getd (params ''deployment_type'') (PStr ''cloud'')) e w
      else if agent_name = ''documentation_specialist'' then
        documentation_specialist avail (getd (params ''doc_type'') (PStr ''complete'')) e w
      else (Returned (''Unknown agent: '' @ agent_name), w))"

text \<open>
  The locals of the loop: the text built so far, \<^verbatim>\<open>results\<close> (a dictionary keyed by the
  agent's name), the list \<^verbatim>\<open>workflow_outputs\<close>, and the world.
\<close>

record loop_state =
  plan_summary :: "piece list"
  results :: "(string \<times> string) list"
  workflow_outputs :: "string list"
  world :: world

text \<open>\<^verbatim>\<open>result[:800] + "..." if len(result) > 800 else result\<close>.\<close>

definition result_preview :: "string \<Rightarrow> string" where
  "result_preview result = (if length result > 800 then take 800 result @ ''...'' else result)"

text \<open>
  The head of one iteration, for the step at position \<open>i\<close> of \<^verbatim>\<open>team_workflow\<close>: the line
  printed, then the dispatch inside \<^verbatim>\<open>try\<close>, up to the outcome of the worker's call.
\<close>

definition call_worker ::
  "env \<Rightarrow> string \<Rightarrow> nat \<Rightarrow> step_info \<Rightarrow> loop_state \<Rightarrow> outcome \<times> world" where
  "call_worker env user_request i step_info ls =
     (let agent_name = getd (agent step_info) [];
          params = getd (parameters step_info) Map.empty;
          step_num = getd (step step_info) 0;
          w0 = (world ls)\<lparr>trace := trace (world ls) @ [Executing step_num agent_name]\<rparr>
      in run_agent (gemini_available env) user_request agent_name params (worker_envs env i) w0)"

text \<open>
  One iteration of the loop. A result that is returned is stored, appended and previewed,
  whatever it says; an exception is caught, printed, shown and stored, and is not
  appended to \<^verbatim>\<open>workflow_outputs\<close>.
\<close>

definition execute_step ::
  "env \<Rightarrow> string \<Rightarrow> nat \<Rightarrow> step_info \<Rightarrow> loop_state \<Rightarrow> loop_state" where
  "execute_step env user_request i step_info ls =
     (let agent_name = getd (agent step_info) [];
          step_num = getd (step step_info) 0;
          summary0 = plan_summary ls @ [StepBanner step_num agent_name]
      in case call_worker env user_request i step_info ls of
           (Returned result, w1) \<Rightarrow>
             ls\<lparr>plan_summary := summary0 @ [Preview (result_preview result)],
                results := AList.update agent_name result (results ls),
                workflow_outputs := workflow_outputs ls @ [result],
                world := w1\<rparr>
         | (Raised m, w1) \<Rightarrow>
             (let error_msg = ''Error executing '' @ agent_name @ '': '' @ m
              in ls\<lparr>plan_summary := summary0 @ [ErrorLine error_msg],
                    results := AList.update agent_name error_msg (results ls),
                    world := w1\<lparr>trace := trace w1 @ [Printed error_msg]\<rparr>\<rparr>))"

text \<open>The loop: one pass over \<^verbatim>\<open>team_workflow\<close> in the order of the list.\<close>

fun execute_workflow ::
  "env \<Rightarrow> string \<Rightarrow> nat \<Rightarrow> step_info list \<Rightarrow> loop_state \<Rightarrow> loop_state" where
  "execute_workflow env user_request i [] ls = ls"
| "execute_workflow env user_request i (step_info # rest) ls =
     execute_workflow env user_request (Suc i) rest (execute_step env user_request i step_info ls)"

text \<open>Step 3 of \<^verbatim>\<open>orchestrator\<close>: the loop started with empty \<^verbatim>\<open>results\<close> and outputs.\<close>

definition run_workflow :: "env \<Rightarrow> string \<Rightarrow> plan \<Rightarrow> world \<Rightarrow> loop_state" where
  "run_workflow env user_request plan w =
     execute_workflow env user_request 0 (getd (team_workflow plan) [])
       \<lparr>plan_summary = show_plan env plan @ [ExecutingBanner], results = [],
        workflow_outputs = [], world = w\<rparr>"

text \<open>
  Step 4 and the final output: the summary prompt holds the request, the project's name
  and every result cut to 500 characters; the call is inside \<^verbatim>\<open>try/except\<close>, a failure
  being replaced by a notice; the closing lines count \<^verbatim>\<open>results\<close> and \<^verbatim>\<open>workflow_outputs\<close>.
\<close>

definition deliver :: "env \<Rightarrow> string \<Rightarrow> plan \<Rightarrow> loop_state \<Rightarrow> piece list \<times> world" where
  "deliver env user_request plan ls =
     (let w1 = (world ls)
                 \<lparr>trace := trace (world ls) @ [Printed ''Generating final project summary...'']\<rparr>;
          w2 = generate ''orchestrator summary''
                 [PStr user_request, PStr (getd (project_name plan) ''Unnamed Project''),
                  PList (map (\<lambda>(k, v). k @ '': '' @ take 500 v @ ''...'') (results ls))] w1;
          narrative = (case summary_reply env of
                         Text t \<Rightarrow> DeliverySummary t
                       | Fails m \<Rightarrow> SummaryError m)
      in (plan_summary ls
            @ [narrative,
               Complete (end_time env) (length (results ls)) (length (workflow_outputs ls))],
          w2))"

text \<open>
  The head of \<^verbatim>\<open>orchestrator\<close> once the service is known to be available: the six
  assignments, the line printed inside the first \<^verbatim>\<open>try\<close>, and the planner's prompt.
\<close>

definition start_run :: "string \<Rightarrow> string \<Rightarrow> world \<Rightarrow> world" where
  "start_run user_request execution_mode w =
     (let w1 = w\<lparr>project_state := run_start_reset user_request (project_state w)\<rparr>;
          w2 = w1\<lparr>trace := trace w1 @ [Printed ''Orchestrator analyzing request...'']\<rparr>
      in generate ''orchestrator'' [PStr user_request, PStr execution_mode] w2)"

text \<open>
  The tool \<^verbatim>\<open>orchestrator\<close>. The state is reset first, before the planner is called; the
  plan is then shown, and run unless \<^verbatim>\<open>auto_execute\<close> is false.
\<close>

definition orchestrator ::
  "env \<Rightarrow> string \<Rightarrow> bool \<Rightarrow> string \<Rightarrow> world \<Rightarrow> piece list \<times> world" where
  "orchestrator env user_request auto_execute execution_mode w =
     (if \<not> gemini_available env then ([Unavailable], w)
      else
        let w3 = start_run user_request execution_mode w
        in case planner_reply env of
             NoJson answer \<Rightarrow> ([CouldNotParse answer], w3)
           | AnalysisFails m \<Rightarrow> ([AnalysisError m], w3)
           | Parsed plan \<Rightarrow>
               if \<not> auto_execute then (show_plan env plan @ [Hint], w3)
               else deliver env user_request plan (run_workflow env user_request plan w3))"

subsection \<open>Reading a run\<close>

text \<open>The step of a plan as the loop reads it: its number and the name of its agent.\<close>

definition step_key :: "step_info \<Rightarrow> int \<times> string" where
  "step_key step_info = (getd (step step_info) 0, getd (agent step_info) [])"

text \<open>The steps started, in order, as the printed lines tell.\<close>

fun attempts :: "event list \<Rightarrow> (int \<times> string) list" where
  "attempts [] = []"
| "attempts (Executing n a # es) = (n, a) # attempts es"
| "attempts (Printed l # es) = attempts es"
| "attempts (Generate who holes # es) = attempts es"

text \<open>The callers of the generation service, in order.\<close>

fun callers :: "event list \<Rightarrow> string list" where
  "callers [] = []"
| "callers (Generate who holes # es) = who # callers es"
| "callers (Executing n a # es) = callers es"
| "callers (Printed l # es) = callers es"

text \<open>The step banners of the returned text, and its result and error lines.\<close>

fun step_banners :: "piece list \<Rightarrow> (int \<times> string) list" where
  "step_banners [] = []"
| "step_banners (StepBanner n a # ps) = (n, a) # step_banners ps"
| "step_banners (p # ps) = step_banners ps"

fun is_status :: "piece \<Rightarrow> bool" where
  "is_status (Preview r) = True"
| "is_status (ErrorLine m) = True"
| "is_status p = False"

fun is_preview :: "piece \<Rightarrow> bool" where
  "is_preview (Preview r) = True"
| "is_preview p = False"

text \<open>The eight names the dispatch compares the agent's name with.\<close>

definition registered_agents :: "string list" where
  "registered_agents =
     [''product_analyst'', ''research_engineer'', ''software_architect'', ''technical_lead'',
      ''senior_developer'', ''qa_engineer'', ''devops_engineer'', ''documentation_specialist'']"

subsection \<open>Concrete runs\<close>

text \<open>
  Inputs for the closed theorems below: a world with nothing printed yet, a step and a
  plan with only the keys the loop reads, and an environment in which the service is
  available, the planner's outcome, the workers' answers by position and the summary's
  answer are given.
\<close>

definition fresh :: "project_state \<Rightarrow> world" where
  "fresh s = \<lparr>project_state = s, trace = []\<rparr>"

definition plain_step :: "int \<Rightarrow> string \<Rightarrow> int list \<Rightarrow> step_info" where
  "plain_step n a ds =
     \<lparr>step = Some n, agent = Some a, parameters = None, reason = None,
      estimated_time = None, depends_on = Some ds\<rparr>"

definition plan_of :: "step_info list \<Rightarrow> plan" where
  "plan_of steps =
     \<lparr>project_name = None, complexity = None, analysis = None, estimated_total_time = None,
      success_criteria = None, team_workflow = Some steps, key_modules = None\<rparr>"

definition scenario :: "planner_result \<Rightarrow> (nat \<Rightarrow> gen_result) \<Rightarrow> gen_result \<Rightarrow> env" where
  "scenario planned replies summary =
     \<lparr>gemini_available = True, planner_reply = planned,
      worker_envs = (\<lambda>i. \<lparr>now = ''12:00'', reply = replies i\<rparr>),
      summary_reply = summary, start_time = ''12:00'', end_time = ''12:30''\<rparr>"

text \<open>Step 2 depends on step 1; a third step follows.\<close>

definition architect_then_devops :: "step_info list" where
  "architect_then_devops =
     [plain_step 1 ''software_architect'' [], plain_step 2 ''devops_engineer'' [1]]"

definition three_steps :: "step_info list" where
  "three_steps =
     [plain_step 1 ''software_architect'' [], plain_step 2 ''devops_engineer'' [1],
      plain_step 3 ''research_engineer'' []]"

text \<open>Two steps of the same agent, the higher number first.\<close>

definition research_twice :: "step_info list" where
  "research_twice = [plain_step 2 ''research_engineer'' [], plain_step 1 ''research_engineer'' []]"

text \<open>
  A plan with a repeated step number, a step that depends on itself and on a step that
  does not exist, and an agent that is none of the eight.
\<close>

definition unchecked_steps :: "step_info list" where
  "unchecked_steps = [plain_step 1 ''product_analyst'' [1, 7], plain_step 1 ''intern'' []]"

text \<open>A state as an earlier run leaves it.\<close>

definition used_state :: project_state where
  "used_state =
     \<lparr>current_project = PStr ''shop'', requirements = Some ''old requirements'',
      architecture = Some ''old architecture'', tech_stack = None,
      implementation_plan = Some ''old plan'',
      code_modules = [(PStr ''main_module'', ''old code'')], testing_results = None,
      deployment_plan = Some ''old deployment''\<rparr>"

section \<open>Lemmas\<close>

subsection \<open>What a worker, a step and the loop add to the trace and the locals\<close>

lemma attempts_append: "attempts (xs @ ys) = attempts xs @ attempts ys"
  by (induction xs rule: attempts.induct) simp_all

lemma callers_append: "callers (xs @ ys) = callers xs @ callers ys"
  by (induction xs rule: callers.induct) simp_all

lemma step_banners_append: "step_banners (xs @ ys) = step_banners xs @ step_banners ys"
  by (induction xs rule: step_banners.induct) simp_all

lemma attempts_generate: "attempts (trace (generate who holes w)) = attempts (trace w)"
  by (simp add: generate_def attempts_append)

lemma product_analyst_attempts:
  "attempts (trace (snd (product_analyst avail a b e w))) = attempts (trace w)"
  by (simp add: product_analyst_def Let_def attempts_generate split: gen_result.split)

lemma research_engineer_attempts:
  "attempts (trace (snd (research_engineer avail a b e w))) = attempts (trace w)"
  by (simp add: research_engineer_def Let_def attempts_generate split: gen_result.split)

lemma software_architect_attempts:
  "attempts (trace (snd (software_architect avail a b e w))) = attempts (trace w)"
  by (simp add: software_architect_def Let_def attempts_generate split: gen_result.split)

lemma technical_lead_attempts:
  "attempts (trace (snd (technical_lead avail a e w))) = attempts (trace w)"
  by (simp add: technical_lead_def Let_def attempts_generate split: gen_result.split)

lemma senior_developer_attempts:
  "attempts (trace (snd (senior_developer avail a b c e w))) = attempts (trace w)"
  by (simp add: senior_developer_def Let_def attempts_generate
      split: gen_result.split option.split pval.split)

lemma qa_engineer_attempts:
  "attempts (trace (snd (qa_engineer avail a b c e w))) = attempts (trace w)"
  by (simp add: qa_engineer_def Let_def attempts_generate
      split: gen_result.split option.split sum.split)

lemma devops_engineer_attempts:
  "attempts (trace (snd (devops_engineer avail a b e w))) = attempts (trace w)"
  by (simp add: devops_engineer_def Let_def attempts_generate
      split: gen_result.split option.split)

lemma documentation_specialist_attempts:
  "attempts (trace (snd (documentation_specialist avail a e w))) = attempts (trace w)"
  by (simp add: documentation_specialist_def Let_def attempts_generate
      split: gen_result.split option.split)

lemmas worker_attempts = product_analyst_attempts research_engineer_attempts
  software_architect_attempts technical_lead_attempts senior_developer_attempts
  qa_engineer_attempts devops_engineer_attempts documentation_specialist_attempts

lemma run_agent_attempts:
  "attempts (trace (snd (run_agent avail ur a ps e w))) = attempts (trace w)"
  by (simp add: run_agent_def worker_attempts)

lemma call_worker_attempts:
  "attempts (trace (snd (call_worker env ur i st ls))) = attempts (trace (world ls)) @ [step_key st]"
  by (simp add: call_worker_def Let_def run_agent_attempts attempts_append step_key_def)

text \<open>What one iteration does to the locals, by the outcome of the worker's call.\<close>

lemma execute_step_returned:
  assumes "call_worker env ur i st ls = (Returned r, w1)"
  shows "execute_step env ur i st ls =
      ls\<lparr>plan_summary := plan_summary ls
                @ [StepBanner (fst (step_key st)) (snd (step_key st)), Preview (result_preview r)],
         results := AList.update (snd (step_key st)) r (results ls),
         workflow_outputs := workflow_outputs ls @ [r],
         world := w1\<rparr>"
  using assms by (simp add: execute_step_def Let_def step_key_def)

lemma execute_step_raised:
  assumes "call_worker env ur i st ls = (Raised m, w1)"
  shows "execute_step env ur i st ls =
      ls\<lparr>plan_summary := plan_summary ls
                @ [StepBanner (fst (step_key st)) (snd (step_key st)),
                   ErrorLine (''Error executing '' @ snd (step_key st) @ '': '' @ m)],
         results := AList.update (snd (step_key st))
                      (''Error executing '' @ snd (step_key st) @ '': '' @ m) (results ls),
         world := w1\<lparr>trace := trace w1
                    @ [Printed (''Error executing '' @ snd (step_key st) @ '': '' @ m)]\<rparr>\<rparr>"
  using assms by (simp add: execute_step_def Let_def step_key_def)

lemma execute_step_shape:
  "\<exists>line res outs w1.
     execute_step env ur i st ls =
       ls\<lparr>plan_summary := plan_summary ls @ [StepBanner (fst (step_key st)) (snd (step_key st)), line],
          results := AList.update (snd (step_key st)) res (results ls),
          workflow_outputs := workflow_outputs ls @ outs,
          world := w1\<rparr>
     \<and> (line = Preview (result_preview res) \<and> outs = [res] \<or> line = ErrorLine res \<and> outs = [])
     \<and> attempts (trace w1) = attempts (trace (world ls)) @ [step_key st]"
proof -
  obtain out w1 where r: "call_worker env ur i st ls = (out, w1)"
    by (cases "call_worker env ur i st ls")
  have "attempts (trace (snd (call_worker env ur i st ls))) = attempts (trace (world ls)) @ [step_key st]"
    by (rule call_worker_attempts)
  with r have a: "attempts (trace w1) = attempts (trace (world ls)) @ [step_key st]"
    by simp
  show ?thesis
  proof (cases out)
    case (Returned result)
    with r have "call_worker env ur i st ls = (Returned result, w1)" by simp
    from execute_step_returned[OF this] a show ?thesis by blast
  next
    case (Raised m)
    let ?msg = "''Error executing '' @ snd (step_key st) @ '': '' @ m"
    from Raised r have "call_worker env ur i st ls = (Raised m, w1)" by simp
    from execute_step_raised[OF this]
    have "execute_step env ur i st ls =
       ls\<lparr>plan_summary := plan_summary ls @ [StepBanner (fst (step_key st)) (snd (step_key st)), ErrorLine ?msg],
          results := AList.update (snd (step_key st)) ?msg (results ls),
          workflow_outputs := workflow_outputs ls @ [],
          world := w1\<lparr>trace := trace w1 @ [Printed ?msg]\<rparr>\<rparr>"
      by simp
    moreover have "attempts (trace (w1\<lparr>trace := trace w1 @ [Printed ?msg]\<rparr>))
        = attempts (trace (world ls)) @ [step_key st]"
      using a by (simp add: attempts_append)
    ultimately show ?thesis by blast
  qed
qed

lemma execute_workflow_append:
  "execute_workflow env ur i (xs @ ys) ls =
     execute_workflow env ur (i + length xs) ys (execute_workflow env ur i xs ls)"
  by (induction xs arbitrary: i ls) simp_all

lemma update_keys_set: "fst ` set (AList.update k v al) = insert k (fst ` set al)"
  by (induction al) auto

lemma execute_workflow_shape:
  "\<exists>body.
     plan_summary (execute_workflow env ur i steps ls) = plan_summary ls @ body
     \<and> step_banners body = map step_key steps
     \<and> length (filter is_status body) = length steps
     \<and> length body = 2 * length steps
     \<and> length (workflow_outputs (execute_workflow env ur i steps ls))
         = length (workflow_outputs ls) + length (filter is_preview body)
     \<and> attempts (trace (world (execute_workflow env ur i steps ls)))
         = attempts (trace (world ls)) @ map step_key steps
     \<and> fst ` set (results (execute_workflow env ur i steps ls))
         = fst ` set (results ls) \<union> (snd \<circ> step_key) ` set steps
     \<and> distinct (map fst (results (execute_workflow env ur i steps ls)))
         = distinct (map fst (results ls))"
proof (induction steps arbitrary: i ls)
  case Nil
  show ?case by simp
next
  case (Cons st rest)
  let ?ls1 = "execute_step env ur i st ls"
  obtain line res outs w1 where
    e: "?ls1 = ls\<lparr>plan_summary := plan_summary ls @ [StepBanner (fst (step_key st)) (snd (step_key st)), line],
          results := AList.update (snd (step_key st)) res (results ls),
          workflow_outputs := workflow_outputs ls @ outs,
          world := w1\<rparr>"
    and l: "line = Preview (result_preview res) \<and> outs = [res] \<or> line = ErrorLine res \<and> outs = []"
    and a: "attempts (trace w1) = attempts (trace (world ls)) @ [step_key st]"
    using execute_step_shape[of env ur i st ls] by blast
  obtain body where
    b1: "plan_summary (execute_workflow env ur (Suc i) rest ?ls1) = plan_summary ?ls1 @ body"
    and b2: "step_banners body = map step_key rest"
    and b3: "length (filter is_status body) = length rest"
    and b4: "length body = 2 * length rest"
    and b5: "length (workflow_outputs (execute_workflow env ur (Suc i) rest ?ls1))
         = length (workflow_outputs ?ls1) + length (filter is_preview body)"
    and b6: "attempts (trace (world (execute_workflow env ur (Suc i) rest ?ls1)))
         = attempts (trace (world ?ls1)) @ map step_key rest"
    and b7: "fst ` set (results (execute_workflow env ur (Suc i) rest ?ls1))
         = fst ` set (results ?ls1) \<union> (snd \<circ> step_key) ` set rest"
    and b8: "distinct (map fst (results (execute_workflow env ur (Suc i) rest ?ls1)))
         = distinct (map fst (results ?ls1))"
    using Cons.IH[of "Suc i" ?ls1] by blast
  let ?body = "[StepBanner (fst (step_key st)) (snd (step_key st)), line] @ body"
  have c1: "plan_summary (execute_workflow env ur i (st # rest) ls) = plan_summary ls @ ?body"
    using b1 e by simp
  have c2: "step_banners ?body = map step_key (st # rest)"
    using b2 l by auto
  have c3: "length (filter is_status ?body) = length (st # rest)"
    using b3 l by auto
  have c4: "length ?body = 2 * length (st # rest)"
    using b4 by simp
  have c5: "length (workflow_outputs (execute_workflow env ur i (st # rest) ls))
         = length (workflow_outputs ls) + length (filter is_preview ?body)"
    using b5 e l by auto
  have c6: "attempts (trace (world (execute_workflow env ur i (st # rest) ls)))
         = attempts (trace (world ls)) @ map step_key (st # rest)"
    using b6 e a by simp
  have c7: "fst ` set (results (execute_workflow env ur i (st # rest) ls))
         = fst ` set (results ls) \<union> (snd \<circ> step_key) ` set (st # rest)"
    using b7 e by (simp add: update_keys_set)
  have c8: "distinct (map fst (results (execute_workflow env ur i (st # rest) ls)))
         = distinct (map fst (results ls))"
    using b8 e by (simp add: update_keys)
  from c1 c2 c3 c4 c5 c6 c7 c8 show ?case by blast
qed

text \<open>The head of a run: what it assigns, prints and sends.\<close>

lemma start_run_world:
  "start_run ur mode w =
     \<lparr>project_state = run_start_reset ur (project_state w),
      trace = trace w @ [Printed ''Orchestrator analyzing request...'',
                         Generate ''orchestrator'' [PStr ur, PStr mode]]\<rparr>"
  by (simp add: start_run_def generate_def Let_def)

lemmas worker_defs = product_analyst_def research_engineer_def software_architect_def
  technical_lead_def senior_developer_def qa_engineer_def devops_engineer_def
  documentation_specialist_def

lemmas run_defs = orchestrator_def start_run_def run_workflow_def call_worker_def
  execute_step_def run_agent_def worker_defs Let_def getd_def generate_def deliver_def
  show_plan_def show_step_def run_start_reset_def initial_state_def result_preview_def
  not_subscriptable_def unhashable_def or_else_def of_field_def report_def stored_code_def
  fresh_def plain_step_def plan_of_def scenario_def step_key_def

section \<open>Properties\<close>

subsection \<open>One pass over the steps\<close>

text \<open>
  C1, as stated, fails. The claim says that every step has a ledger entry of its own and
  that entries come in ascending order of step id. For the plan whose list holds step 2
  and then step 1, both of the agent \<^verbatim>\<open>research_engineer\<close>, and both answered, the
  dictionary \<^verbatim>\<open>results\<close> ends with one entry for the two steps, and the steps were started in
  the order 2, 1.
\<close>

theorem results_keyed_by_agent_counterexample:
  "length (results (run_workflow
             (scenario (Parsed (plan_of research_twice))
                (\<lambda>i. if i = 0 then Text ''first'' else Text ''second'') (Text ''done''))
             ''build'' (plan_of research_twice)
             (start_run ''build'' ''full'' (fresh initial_state))))
     \<noteq> length research_twice
   \<and> attempts (trace (world (run_workflow
             (scenario (Parsed (plan_of research_twice))
                (\<lambda>i. if i = 0 then Text ''first'' else Text ''second'') (Text ''done''))
             ''build'' (plan_of research_twice)
             (start_run ''build'' ''full'' (fresh initial_state)))))
      = [(2, ''research_engineer''), (1, ''research_engineer'')]"
  by (simp add: research_twice_def run_defs)

text \<open>
  C1, amended. For every plan the loop makes one pass over the steps in the order of the
  plan's list: the text it adds is one banner and one result or error line per step, in
  that order; every step is started once, in that order; \<^verbatim>\<open>workflow_outputs\<close> gets one entry
  per step whose call returned; \<^verbatim>\<open>results\<close> holds exactly one entry per agent name that
  occurs in the plan.
\<close>

theorem single_pass_in_list_order:
  "\<exists>body.
     plan_summary (run_workflow env ur plan w) = show_plan env plan @ [ExecutingBanner] @ body
     \<and> step_banners body = map step_key (getd (team_workflow plan) [])
     \<and> length (filter is_status body) = length (getd (team_workflow plan) [])
     \<and> length body = 2 * length (getd (team_workflow plan) [])
     \<and> length (workflow_outputs (run_workflow env ur plan w)) = length (filter is_preview body)
     \<and> attempts (trace (world (run_workflow env ur plan w)))
         = attempts (trace w) @ map step_key (getd (team_workflow plan) [])
     \<and> fst ` set (results (run_workflow env ur plan w))
         = (snd \<circ> step_key) ` set (getd (team_workflow plan) [])
     \<and> distinct (map fst (results (run_workflow env ur plan w)))"
  using execute_workflow_shape[of env ur 0 "getd (team_workflow plan) []"
      "\<lparr>plan_summary = show_plan env plan @ [ExecutingBanner], results = [],
        workflow_outputs = [], world = w\<rparr>"]
  by (simp add: run_workflow_def)

text \<open>
  C1, amended, at the plan of the counterexample: the steps are started in the order of
  the list, and \<^verbatim>\<open>results\<close> has the one key both steps share.
\<close>

theorem single_pass_in_list_order_witness:
  "attempts (trace (world (run_workflow
       (scenario (Parsed (plan_of research_twice)) (\<lambda>i. Text ''ok'') (Text ''done''))
       ''build'' (plan_of research_twice) (fresh initial_state))))
     = [(2, ''research_engineer''), (1, ''research_engineer'')]
   \<and> fst ` set (results (run_workflow
       (scenario (Parsed (plan_of research_twice)) (\<lambda>i. Text ''ok'') (Text ''done''))
       ''build'' (plan_of research_twice) (fresh initial_state)))
     = {''research_engineer''}"
proof -
  let ?env = "scenario (Parsed (plan_of research_twice)) (\<lambda>i. Text ''ok'') (Text ''done'')"
  from single_pass_in_list_order[of ?env "''build''" "plan_of research_twice" "fresh initial_state"]
  have "attempts (trace (world (run_workflow ?env ''build'' (plan_of research_twice)
                                 (fresh initial_state))))
          = attempts (trace (fresh initial_state))
            @ map step_key (getd (team_workflow (plan_of research_twice)) [])"
    and "fst ` set (results (run_workflow ?env ''build'' (plan_of research_twice)
                               (fresh initial_state)))
          = (snd \<circ> step_key) ` set (getd (team_workflow (plan_of research_twice)) [])"
    by blast+
  then show ?thesis
    by (simp add: research_twice_def plan_of_def plain_step_def fresh_def getd_def step_key_def)
qed

subsection \<open>A failing step\<close>

text \<open>
  C2. Take any plan, split at one of its steps, and any outcome of that step's worker
  call, an exception or a returned text (an error text included). The iteration records
  the outcome for that step: the banner and the error or result line are appended to the
  text, \<^verbatim>\<open>results\<close> holds the text under the step's agent, an exception is printed. The
  loop then goes on with the steps after it, every step of the plan is started exactly
  once, in order, and what was appended for the step stays in the text.
\<close>

theorem step_failure_is_isolated:
  assumes "call_worker env ur (i + length pre) st (execute_workflow env ur i pre ls) = (out, w1)"
    and "recorded = (case out of
                       Returned r \<Rightarrow> r
                     | Raised m \<Rightarrow> ''Error executing '' @ snd (step_key st) @ '': '' @ m)"
  shows "(let before = execute_workflow env ur i pre ls;
              after = execute_step env ur (i + length pre) st before;
              final = execute_workflow env ur i (pre @ st # post) ls
          in plan_summary after
               = plan_summary before
                 @ [StepBanner (fst (step_key st)) (snd (step_key st)),
                    case out of Returned r \<Rightarrow> Preview (result_preview r)
                    | Raised m \<Rightarrow> ErrorLine recorded]
             \<and> map_of (results after) (snd (step_key st)) = Some recorded
             \<and> trace (world after)
                 = (case out of Returned r \<Rightarrow> trace w1 | Raised m \<Rightarrow> trace w1 @ [Printed recorded])
             \<and> final = execute_workflow env ur (Suc (i + length pre)) post after
             \<and> attempts (trace (world final))
                 = attempts (trace (world ls)) @ map step_key (pre @ st # post)
             \<and> (\<exists>later. plan_summary final = plan_summary after @ later))"
proof -
  let ?before = "execute_workflow env ur i pre ls"
  let ?after = "execute_step env ur (i + length pre) st ?before"
  let ?final = "execute_workflow env ur i (pre @ st # post) ls"
  have step: "plan_summary ?after
               = plan_summary ?before
                 @ [StepBanner (fst (step_key st)) (snd (step_key st)),
                    case out of Returned r \<Rightarrow> Preview (result_preview r)
                    | Raised m \<Rightarrow> ErrorLine recorded]
             \<and> map_of (results ?after) (snd (step_key st)) = Some recorded
             \<and> trace (world ?after)
                 = (case out of Returned r \<Rightarrow> trace w1 | Raised m \<Rightarrow> trace w1 @ [Printed recorded])"
  proof (cases out)
    case (Returned r)
    with assms(1) have "call_worker env ur (i + length pre) st ?before = (Returned r, w1)"
      by simp
    from execute_step_returned[OF this] Returned assms(2) show ?thesis
      by (simp add: update_Some_unfold)
  next
    case (Raised m)
    with assms(1) have "call_worker env ur (i + length pre) st ?before = (Raised m, w1)"
      by simp
    from execute_step_raised[OF this] Raised assms(2) show ?thesis
      by (simp add: update_Some_unfold)
  qed
  have cont: "?final = execute_workflow env ur (Suc (i + length pre)) post ?after"
    by (simp add: execute_workflow_append)
  have att: "attempts (trace (world ?final))
      = attempts (trace (world ls)) @ map step_key (pre @ st # post)"
    using execute_workflow_shape[of env ur i "pre @ st # post" ls] by blast
  have "\<exists>later. plan_summary ?final = plan_summary ?after @ later"
    using execute_workflow_shape[of env ur "Suc (i + length pre)" post ?after] cont by auto
  with step cont att show ?thesis by (simp add: Let_def)
qed

text \<open>
  C2 at a plan of three steps in which every answer of the service is a failure: the
  second step, \<^verbatim>\<open>devops_engineer\<close>, raises; the error is recorded under its name, and the
  third step is still started.
\<close>

theorem step_failure_is_isolated_witness:
  "call_worker (scenario (Parsed (plan_of three_steps)) (\<lambda>i. Fails ''timeout'') (Text ''done''))
     ''build'' (0 + length [plain_step 1 ''software_architect'' []])
     (plain_step 2 ''devops_engineer'' [1])
     (execute_workflow (scenario (Parsed (plan_of three_steps)) (\<lambda>i. Fails ''timeout'') (Text ''done''))
        ''build'' 0 [plain_step 1 ''software_architect'' []]
        \<lparr>plan_summary = [], results = [], workflow_outputs = [],
         world = start_run ''build'' ''full'' (fresh initial_state)\<rparr>)
     = (Raised not_subscriptable,
        \<lparr>project_state = run_start_reset ''build'' initial_state,
         trace = [Printed ''Orchestrator analyzing request...'',
                  Generate ''orchestrator'' [PStr ''build'', PStr ''full''],
                  Executing 1 ''software_architect'',
                  Generate ''software_architect''
                    [PNone, PStr ''Use your expertise for technology choices''],
                  Executing 2 ''devops_engineer'']\<rparr>)
   \<and> map_of (results (execute_step
         (scenario (Parsed (plan_of three_steps)) (\<lambda>i. Fails ''timeout'') (Text ''done''))
         ''build'' (0 + length [plain_step 1 ''software_architect'' []])
         (plain_step 2 ''devops_engineer'' [1])
         (execute_workflow
            (scenario (Parsed (plan_of three_steps)) (\<lambda>i. Fails ''timeout'') (Text ''done''))
            ''build'' 0 [plain_step 1 ''software_architect'' []]
            \<lparr>plan_summary = [], results = [], workflow_outputs = [],
             world = start_run ''build'' ''full'' (fresh initial_state)\<rparr>)))
       ''devops_engineer''
     = Some ''Error executing devops_engineer: NoneType object is not subscriptable''
   \<and> attempts (trace (world (execute_workflow
         (scenario (Parsed (plan_of three_steps)) (\<lambda>i. Fails ''timeout'') (Text ''done''))
         ''build'' 0
         ([plain_step 1 ''software_architect'' []] @ plain_step 2 ''devops_engineer'' [1]
            # [plain_step 3 ''research_engineer'' []])
         \<lparr>plan_summary = [], results = [], workflow_outputs = [],
          world = start_run ''build'' ''full'' (fresh initial_state)\<rparr>)))
     = [(1, ''software_architect''), (2, ''devops_engineer''), (3, ''research_engineer'')]"
proof -
  let ?env = "scenario (Parsed (plan_of three_steps)) (\<lambda>i. Fails ''timeout'') (Text ''done'')"
  let ?ls = "\<lparr>plan_summary = [], results = [], workflow_outputs = [],
         world = start_run ''build'' ''full'' (fresh initial_state)\<rparr>"
  let ?w1 = "\<lparr>project_state = run_start_reset ''build'' initial_state,
         trace = [Printed ''Orchestrator analyzing request...'',
                  Generate ''orchestrator'' [PStr ''build'', PStr ''full''],
                  Executing 1 ''software_architect'',
                  Generate ''software_architect''
                    [PNone, PStr ''Use your expertise for technology choices''],
                  Executing 2 ''devops_engineer'']\<rparr>"
  have h: "call_worker ?env ''build'' (0 + length [plain_step 1 ''software_architect'' []])
     (plain_step 2 ''devops_engineer'' [1])
     (execute_workflow ?env ''build'' 0 [plain_step 1 ''software_architect'' []] ?ls)
     = (Raised not_subscriptable, ?w1)"
    by (simp add: run_defs)
  note t = step_failure_is_isolated[OF h refl, of "[plain_step 3 ''research_engineer'' []]"]
  from t have "map_of (results (execute_step ?env ''build''
         (0 + length [plain_step 1 ''software_architect'' []])
         (plain_step 2 ''devops_engineer'' [1])
         (execute_workflow ?env ''build'' 0 [plain_step 1 ''software_architect'' []] ?ls)))
       (snd (step_key (plain_step 2 ''devops_engineer'' [1])))
     = Some (''Error executing '' @ snd (step_key (plain_step 2 ''devops_engineer'' [1]))
              @ '': '' @ not_subscriptable)"
    by (simp add: Let_def)
  then have r: "map_of (results (execute_step ?env ''build''
         (0 + length [plain_step 1 ''software_architect'' []])
         (plain_step 2 ''devops_engineer'' [1])
         (execute_workflow ?env ''build'' 0 [plain_step 1 ''software_architect'' []] ?ls)))
       ''devops_engineer''
     = Some ''Error executing devops_engineer: NoneType object is not subscriptable''"
    by (simp add: step_key_def plain_step_def getd_def not_subscriptable_def)
  from t have "attempts (trace (world (execute_workflow ?env ''build'' 0
         ([plain_step 1 ''software_architect'' []] @ plain_step 2 ''devops_engineer'' [1]
            # [plain_step 3 ''research_engineer'' []]) ?ls)))
     = attempts (trace (world ?ls))
       @ map step_key ([plain_step 1 ''software_architect'' []]
                       @ plain_step 2 ''devops_engineer'' [1]
                       # [plain_step 3 ''research_engineer'' []])"
    by (simp add: Let_def)
  then have a: "attempts (trace (world (execute_workflow ?env ''build'' 0
         ([plain_step 1 ''software_architect'' []] @ plain_step 2 ''devops_engineer'' [1]
            # [plain_step 3 ''research_engineer'' []]) ?ls)))
     = [(1, ''software_architect''), (2, ''devops_engineer''), (3, ''research_engineer'')]"
    by (simp add: start_run_world fresh_def step_key_def plain_step_def getd_def)
  from h r a show ?thesis by simp
qed

subsection \<open>A step that depends on a failed step\<close>

text \<open>
  C3, on the code as it is. The plan is \<^verbatim>\<open>software_architect\<close> followed by
  \<^verbatim>\<open>devops_engineer\<close>, which depends on it; the service fails for the first step, so no
  architecture is stored. The second step is started, but its worker raises while slicing
  the architecture: the default text of \<^verbatim>\<open>project_state.get('architecture', ...)\<close> is not
  taken, since the key is present and holds \<^verbatim>\<open>None\<close>. The service is never called for the
  second step.
\<close>

theorem dependent_step_raises_on_missing_architecture:
  "fst (orchestrator
          (scenario (Parsed (plan_of architect_then_devops))
             (\<lambda>i. if i = 0 then Fails ''timeout'' else Text ''ok'') (Text ''done''))
          ''build'' True ''full'' (fresh initial_state))
     = [PlanHeader ''12:00'' ''Unnamed Project'' ''Unknown'' ''Unknown'' ''No analysis provided'' [] 2,
        WorkflowStep 1 ''software_architect'' ''Unknown'' ''No reason provided'' [],
        WorkflowStep 2 ''devops_engineer'' ''Unknown'' ''No reason provided'' [1],
        ExecutingBanner,
        StepBanner 1 ''software_architect'', Preview ''Software Architect Error: timeout'',
        StepBanner 2 ''devops_engineer'',
        ErrorLine ''Error executing devops_engineer: NoneType object is not subscriptable'',
        DeliverySummary ''done'', Complete ''12:30'' 2 1]
   \<and> callers (trace (snd (orchestrator
          (scenario (Parsed (plan_of architect_then_devops))
             (\<lambda>i. if i = 0 then Fails ''timeout'' else Text ''ok'') (Text ''done''))
          ''build'' True ''full'' (fresh initial_state))))
       = [''orchestrator'', ''software_architect'', ''orchestrator summary'']"
  by (simp add: architect_then_devops_def run_defs)

subsection \<open>Plans are not checked\<close>

text \<open>
  C4, as stated, fails. The first plan has a repeated step number, a step that depends on
  itself and on a step that does not exist, and an agent that is none of the eight; the
  run calls \<^verbatim>\<open>product_analyst\<close> all the same, which stores the requirements. The second
  plan has no step; the run ends with the ordinary closing lines.
\<close>

theorem unchecked_plan_runs_counterexample:
  "callers (trace (snd (orchestrator
       (scenario (Parsed (plan_of unchecked_steps)) (\<lambda>i. Text ''spec'') (Text ''done''))
       ''build'' True ''full'' (fresh initial_state))))
     = [''orchestrator'', ''product_analyst'', ''orchestrator summary'']
   \<and> requirements (project_state (snd (orchestrator
       (scenario (Parsed (plan_of unchecked_steps)) (\<lambda>i. Text ''spec'') (Text ''done''))
       ''build'' True ''full'' (fresh initial_state)))) = Some ''spec''
   \<and> fst (orchestrator
       (scenario (Parsed (plan_of [])) (\<lambda>i. Text ''spec'') (Text ''done''))
       ''build'' True ''full'' (fresh initial_state))
     = [PlanHeader ''12:00'' ''Unnamed Project'' ''Unknown'' ''Unknown'' ''No analysis provided'' [] 0,
        ExecutingBanner, DeliverySummary ''done'', Complete ''12:30'' 0 0]"
  by (simp add: unchecked_steps_def run_defs)

text \<open>
  C4, amended. No plan is checked: whatever the step numbers and the \<^verbatim>\<open>depends_on\<close> entries
  are, every step of the list is started once, in the order of the list, and \<^verbatim>\<open>depends_on\<close>
  is not read by an iteration. An agent name that is none of the eight calls no worker: the
  result of the dispatch is the text \<^verbatim>\<open>Unknown agent\<close> with the name, and the world is as it
  was.
\<close>

theorem unchecked_plan_runs_every_step:
  "attempts (trace (world (run_workflow env ur plan w)))
     = attempts (trace w) @ map step_key (getd (team_workflow plan) [])
   \<and> execute_step env ur i (st\<lparr>depends_on := ds\<rparr>) ls = execute_step env ur i st ls
   \<and> (agent_name \<notin> set registered_agents \<longrightarrow>
        run_agent avail ur agent_name params e w'
          = (Returned (''Unknown agent: '' @ agent_name), w'))"
proof -
  have "attempts (trace (world (run_workflow env ur plan w)))
     = attempts (trace w) @ map step_key (getd (team_workflow plan) [])"
    using execute_workflow_shape[of env ur 0 "getd (team_workflow plan) []"
      "\<lparr>plan_summary = show_plan env plan @ [ExecutingBanner], results = [],
        workflow_outputs = [], world = w\<rparr>"]
    by (auto simp: run_workflow_def)
  moreover have "execute_step env ur i (st\<lparr>depends_on := ds\<rparr>) ls = execute_step env ur i st ls"
    by (simp add: execute_step_def call_worker_def)
  moreover have "agent_name \<notin> set registered_agents \<longrightarrow>
        run_agent avail ur agent_name params e w'
          = (Returned (''Unknown agent: '' @ agent_name), w')"
    by (simp add: registered_agents_def run_agent_def)
  ultimately show ?thesis by blast
qed

text \<open>C4, amended, at the agent name \<^verbatim>\<open>intern\<close>.\<close>

theorem unchecked_plan_runs_every_step_witness:
  "''intern'' \<notin> set registered_agents
   \<and> run_agent True ''build'' ''intern'' Map.empty \<lparr>now = ''12:00'', reply = Text ''spec''\<rparr>
        (fresh initial_state)
       = (Returned ''Unknown agent: intern'', fresh initial_state)"
proof -
  have h: "''intern'' \<notin> set registered_agents"
    by (simp add: registered_agents_def)
  from unchecked_plan_runs_every_step[where agent_name = "''intern''" and avail = True
      and ur = "''build''" and params = Map.empty
      and e = "\<lparr>now = ''12:00'', reply = Text ''spec''\<rparr>" and w' = "fresh initial_state"] h
  show ?thesis by simp
qed

subsection \<open>The start of a run\<close>

text \<open>
  C5, as stated, fails. The claim says that starting a run leaves every field of the state
  empty. After a run on a plan with no step, started from a state an earlier run left,
  \<^verbatim>\<open>current_project\<close> is not \<^verbatim>\<open>None\<close>: it holds the new request.
\<close>

theorem run_start_keeps_request_counterexample:
  "current_project (project_state (snd (orchestrator
       (scenario (Parsed (plan_of [])) (\<lambda>i. Text ''ok'') (Text ''done''))
       ''build'' True ''full'' (fresh used_state)))) \<noteq> PNone"
  by (simp add: used_state_def run_defs)

text \<open>
  C5, amended. When the service is available and the planner gives a plan, the run is the
  loop and the delivery applied to the world the head of \<^verbatim>\<open>orchestrator\<close> leaves, and in that
  world \<^verbatim>\<open>current_project\<close> is the request, \<^verbatim>\<open>requirements\<close>, \<^verbatim>\<open>architecture\<close>,
  \<^verbatim>\<open>implementation_plan\<close> and \<^verbatim>\<open>deployment_plan\<close> are \<^verbatim>\<open>None\<close> and \<^verbatim>\<open>code_modules\<close> is empty,
  whatever the state held before; no step has been started by then, and the only call
  made is the planner's.
\<close>

theorem run_start_clears_run_fields:
  assumes "gemini_available env" and "planner_reply env = Parsed plan"
  shows "orchestrator env ur True mode w
           = deliver env ur plan (run_workflow env ur plan (start_run ur mode w))
         \<and> current_project (project_state (start_run ur mode w)) = PStr ur
         \<and> requirements (project_state (start_run ur mode w)) = None
         \<and> architecture (project_state (start_run ur mode w)) = None
         \<and> implementation_plan (project_state (start_run ur mode w)) = None
         \<and> code_modules (project_state (start_run ur mode w)) = []
         \<and> deployment_plan (project_state (start_run ur mode w)) = None
         \<and> attempts (trace (start_run ur mode w)) = attempts (trace w)
         \<and> callers (trace (start_run ur mode w)) = callers (trace w) @ [''orchestrator'']"
  using assms
  by (simp add: orchestrator_def start_run_world run_start_reset_def attempts_append callers_append)

text \<open>
  C5, amended, at a state that holds a module from an earlier run: the module is gone
  when the run starts.
\<close>

theorem run_start_clears_run_fields_witness:
  "gemini_available (scenario (Parsed (plan_of architect_then_devops)) (\<lambda>i. Text ''ok'') (Text ''done''))
   \<and> planner_reply (scenario (Parsed (plan_of architect_then_devops)) (\<lambda>i. Text ''ok'') (Text ''done''))
       = Parsed (plan_of architect_then_devops)
   \<and> code_modules used_state = [(PStr ''main_module'', ''old code'')]
   \<and> code_modules (project_state (start_run ''build'' ''full'' (fresh used_state))) = []
   \<and> current_project (project_state (start_run ''build'' ''full'' (fresh used_state)))
       = PStr ''build''"
proof -
  let ?env = "scenario (Parsed (plan_of architect_then_devops)) (\<lambda>i. Text ''ok'') (Text ''done'')"
  have a: "gemini_available ?env" by (simp add: scenario_def)
  have b: "planner_reply ?env = Parsed (plan_of architect_then_devops)"
    by (simp add: scenario_def)
  from run_start_clears_run_fields[OF a b, of "''build''" "''full''" "fresh used_state"] a b
  show ?thesis by (simp add: used_state_def)
qed

subsection \<open>A planner that fails\<close>

text \<open>
  C6, as stated, fails. The claim says that a run whose planner gives no parseable answer
  leaves the state as it was. The state an earlier run left is not the state after such a
  run.
\<close>

theorem planning_failure_resets_state_counterexample:
  "project_state (snd (orchestrator
       (scenario (NoJson ''I cannot plan this'') (\<lambda>i. Text ''ok'') (Text ''done''))
       ''build'' True ''full'' (fresh used_state))) \<noteq> project_state (fresh used_state)"
  by (simp add: used_state_def run_defs)

text \<open>
  C6, amended. When the service is available and the planner's answer holds no JSON object,
  or the planner's call or the parsing raises, the run returns at once with one diagnostic
  that carries the answer or the exception's message; nothing is printed or called after
  the planner's prompt, so no step is started and no worker is called; the state is the
  one the six assignments at the head of the run give, not the earlier one.
\<close>

theorem planning_failure_aborts_after_reset:
  assumes "gemini_available env"
    and "planner_reply env = NoJson a \<or> planner_reply env = AnalysisFails a"
  shows "fst (orchestrator env ur auto mode w)
           = [if planner_reply env = NoJson a then CouldNotParse a else AnalysisError a]
         \<and> project_state (snd (orchestrator env ur auto mode w))
           = run_start_reset ur (project_state w)
         \<and> trace (snd (orchestrator env ur auto mode w))
           = trace w @ [Printed ''Orchestrator analyzing request...'',
                        Generate ''orchestrator'' [PStr ur, PStr mode]]"
  using assms by (auto simp: orchestrator_def start_run_world)

text \<open>C6, amended, at a planner whose call raises.\<close>

theorem planning_failure_aborts_after_reset_witness:
  "gemini_available (scenario (AnalysisFails ''quota exceeded'') (\<lambda>i. Text ''ok'') (Text ''done''))
   \<and> planner_reply (scenario (AnalysisFails ''quota exceeded'') (\<lambda>i. Text ''ok'') (Text ''done''))
       = AnalysisFails ''quota exceeded''
   \<and> orchestrator (scenario (AnalysisFails ''quota exceeded'') (\<lambda>i. Text ''ok'') (Text ''done''))
        ''build'' True ''full'' (fresh used_state)
       = ([AnalysisError ''quota exceeded''],
          \<lparr>project_state = used_state\<lparr>current_project := PStr ''build'', requirements := None,
               architecture := None, implementation_plan := None, code_modules := [],
               deployment_plan := None\<rparr>,
           trace = [Printed ''Orchestrator analyzing request...'',
                    Generate ''orchestrator'' [PStr ''build'', PStr ''full'']]\<rparr>)"
proof -
  let ?env = "scenario (AnalysisFails ''quota exceeded'') (\<lambda>i. Text ''ok'') (Text ''done'')"
  have a: "gemini_available ?env" by (simp add: scenario_def)
  have b: "planner_reply ?env = AnalysisFails ''quota exceeded''" by (simp add: scenario_def)
  then have c: "planner_reply ?env = NoJson ''quota exceeded''
      \<or> planner_reply ?env = AnalysisFails ''quota exceeded''"
    by simp
  from planning_failure_aborts_after_reset[OF a c, of "''build''" True "''full''" "fresh used_state"]
    a b
  show ?thesis
    by (cases "orchestrator ?env ''build'' True ''full'' (fresh used_state)")
       (auto simp: fresh_def run_start_reset_def)
qed

subsection \<open>The final report\<close>

text \<open>
  C7. When the service is available and the planner gives a plan, a run always returns
  its report: the plan as shown, then one banner and one result or error line per step,
  whatever the steps' outcomes, then the narrative, which is the service's text or, when
  the summary call fails, a notice with the failure's message, then the closing counts.
  The same holds for the delivery applied to any locals of the loop: the text built so
  far is kept and the failure of the summary call becomes the notice.
\<close>

theorem delivery_always_reports:
  assumes "gemini_available env" and "planner_reply env = Parsed plan"
  shows "\<exists>body.
           fst (orchestrator env ur True mode w)
             = show_plan env plan @ [ExecutingBanner] @ body
               @ [case summary_reply env of
                    Text t \<Rightarrow> DeliverySummary t
                  | Fails m \<Rightarrow> SummaryError m,
                  Complete (end_time env)
                    (length (results (run_workflow env ur plan (start_run ur mode w))))
                    (length (workflow_outputs (run_workflow env ur plan (start_run ur mode w))))]
           \<and> step_banners body = map step_key (getd (team_workflow plan) [])
           \<and> length (filter is_status body) = length (getd (team_workflow plan) [])
           \<and> (\<forall>ls. fst (deliver env ur plan ls)
                      = plan_summary ls
                        @ [case summary_reply env of
                             Text t \<Rightarrow> DeliverySummary t
                           | Fails m \<Rightarrow> SummaryError m,
                           Complete (end_time env) (length (results ls))
                             (length (workflow_outputs ls))])"
proof -
  have d: "\<And>ls. fst (deliver env ur plan ls)
                      = plan_summary ls
                        @ [case summary_reply env of
                             Text t \<Rightarrow> DeliverySummary t
                           | Fails m \<Rightarrow> SummaryError m,
                           Complete (end_time env) (length (results ls))
                             (length (workflow_outputs ls))]"
    by (simp add: deliver_def Let_def)
  obtain body where
    b1: "plan_summary (run_workflow env ur plan (start_run ur mode w))
           = show_plan env plan @ [ExecutingBanner] @ body"
    and b2: "step_banners body = map step_key (getd (team_workflow plan) [])"
    and b3: "length (filter is_status body) = length (getd (team_workflow plan) [])"
    using execute_workflow_shape[of env ur 0 "getd (team_workflow plan) []"
      "\<lparr>plan_summary = show_plan env plan @ [ExecutingBanner], results = [],
        workflow_outputs = [], world = start_run ur mode w\<rparr>"]
    by (auto simp: run_workflow_def)
  have "orchestrator env ur True mode w
          = deliver env ur plan (run_workflow env ur plan (start_run ur mode w))"
    using assms by (simp add: orchestrator_def)
  then have "fst (orchestrator env ur True mode w)
             = show_plan env plan @ [ExecutingBanner] @ body
               @ [case summary_reply env of
                    Text t \<Rightarrow> DeliverySummary t
                  | Fails m \<Rightarrow> SummaryError m,
                  Complete (end_time env)
                    (length (results (run_workflow env ur plan (start_run ur mode w))))
                    (length (workflow_outputs (run_workflow env ur plan (start_run ur mode w))))]"
    using d b1 by simp
  with b2 b3 d show ?thesis by blast
qed

text \<open>
  C7 at a run in which every call of the service after the planner's fails, the summary
  call included: the report has the three steps' lines and the notice.
\<close>

theorem delivery_always_reports_witness:
  "gemini_available
     (scenario (Parsed (plan_of three_steps)) (\<lambda>i. Fails ''timeout'') (Fails ''quota exceeded''))
   \<and> planner_reply
       (scenario (Parsed (plan_of three_steps)) (\<lambda>i. Fails ''timeout'') (Fails ''quota exceeded''))
       = Parsed (plan_of three_steps)
   \<and> fst (orchestrator
       (scenario (Parsed (plan_of three_steps)) (\<lambda>i. Fails ''timeout'') (Fails ''quota exceeded''))
       ''build'' True ''full'' (fresh initial_state))
       = [PlanHeader ''12:00'' ''Unnamed Project'' ''Unknown'' ''Unknown''
            ''No analysis provided'' [] 3,
          WorkflowStep 1 ''software_architect'' ''Unknown'' ''No reason provided'' [],
          WorkflowStep 2 ''devops_engineer'' ''Unknown'' ''No reason provided'' [1],
          WorkflowStep 3 ''research_engineer'' ''Unknown'' ''No reason provided'' [],
          ExecutingBanner,
          StepBanner 1 ''software_architect'', Preview ''Software Architect Error: timeout'',
          StepBanner 2 ''devops_engineer'',
          ErrorLine ''Error executing devops_engineer: NoneType object is not subscriptable'',
          StepBanner 3 ''research_engineer'', Preview ''Research Engineer Error: timeout'',
          SummaryError ''quota exceeded'', Complete ''12:30'' 3 2]
   \<and> fst (deliver
       (scenario (Parsed (plan_of three_steps)) (\<lambda>i. Fails ''timeout'') (Fails ''quota exceeded''))
       ''build'' (plan_of three_steps)
       \<lparr>plan_summary = [StepBanner 1 ''software_architect'', ErrorLine ''failed''],
        results = [(''software_architect'', ''failed'')], workflow_outputs = [],
        world = fresh initial_state\<rparr>)
       = [StepBanner 1 ''software_architect'', ErrorLine ''failed'',
          SummaryError ''quota exceeded'', Complete ''12:30'' 1 0]"
proof -
  let ?env = "scenario (Parsed (plan_of three_steps)) (\<lambda>i. Fails ''timeout'')
                (Fails ''quota exceeded'')"
  have a: "gemini_available ?env" by (simp add: scenario_def)
  have b: "planner_reply ?env = Parsed (plan_of three_steps)" by (simp add: scenario_def)
  from delivery_always_reports[OF a b, of "''build''" "''full''" "fresh initial_state"]
  have "\<forall>ls. fst (deliver ?env ''build'' (plan_of three_steps) ls)
                      = plan_summary ls
                        @ [case summary_reply ?env of
                             Text t \<Rightarrow> DeliverySummary t
                           | Fails m \<Rightarrow> SummaryError m,
                           Complete (end_time ?env) (length (results ls))
                             (length (workflow_outputs ls))]"
    by blast
  then have c: "fst (deliver ?env ''build'' (plan_of three_steps)
       \<lparr>plan_summary = [StepBanner 1 ''software_architect'', ErrorLine ''failed''],
        results = [(''software_architect'', ''failed'')], workflow_outputs = [],
        world = fresh initial_state\<rparr>)
       = [StepBanner 1 ''software_architect'', ErrorLine ''failed'',
          SummaryError ''quota exceeded'', Complete ''12:30'' 1 0]"
    by (simp add: scenario_def)
  have d: "fst (orchestrator ?env ''build'' True ''full'' (fresh initial_state))
       = [PlanHeader ''12:00'' ''Unnamed Project'' ''Unknown'' ''Unknown''
            ''No analysis provided'' [] 3,
          WorkflowStep 1 ''software_architect'' ''Unknown'' ''No reason provided'' [],
          WorkflowStep 2 ''devops_engineer'' ''Unknown'' ''No reason provided'' [1],
          WorkflowStep 3 ''research_engineer'' ''Unknown'' ''No reason provided'' [],
          ExecutingBanner,
          StepBanner 1 ''software_architect'', Preview ''Software Architect Error: timeout'',
          StepBanner 2 ''devops_engineer'',
          ErrorLine ''Error executing devops_engineer: NoneType object is not subscriptable'',
          StepBanner 3 ''research_engineer'', Preview ''Research Engineer Error: timeout'',
          SummaryError ''quota exceeded'', Complete ''12:30'' 3 2]"
    by (simp add: three_steps_def run_defs)
  from a b c d show ?thesis by simp
qed

subsection \<open>Two runs\<close>

text \<open>
  C8. Take two runs with the same request, the same plan and the same answers and clock
  readings from outside, the service being available, started after the same history from
  two project states that agree on the two fields no tool ever writes (\<^verbatim>\<open>tech_stack\<close> and
  \<^verbatim>\<open>testing_results\<close>) and may differ on everything else. The locals of the loop, with
  \<^verbatim>\<open>results\<close> and \<^verbatim>\<open>workflow_outputs\<close>, are the same, and so are the returned text, the trace
  and the final project state.
\<close>

theorem runs_are_deterministic:
  assumes "gemini_available env"
    and "tech_stack s1 = tech_stack s2" and "testing_results s1 = testing_results s2"
  shows "run_workflow env ur plan (start_run ur mode \<lparr>project_state = s1, trace = t\<rparr>)
           = run_workflow env ur plan (start_run ur mode \<lparr>project_state = s2, trace = t\<rparr>)
         \<and> orchestrator env ur auto mode \<lparr>project_state = s1, trace = t\<rparr>
           = orchestrator env ur auto mode \<lparr>project_state = s2, trace = t\<rparr>"
proof -
  have "run_start_reset ur s1 = run_start_reset ur s2"
    using assms(2,3) by (cases s1, cases s2) (simp add: run_start_reset_def)
  then have "start_run ur mode \<lparr>project_state = s1, trace = t\<rparr>
      = start_run ur mode \<lparr>project_state = s2, trace = t\<rparr>"
    by (simp add: start_run_world)
  then show ?thesis
    using assms(1) by (simp add: orchestrator_def)
qed

text \<open>
  C8 at a run of three steps started once from the state of an earlier run and once from
  the state at load.
\<close>

theorem runs_are_deterministic_witness:
  "gemini_available (scenario (Parsed (plan_of three_steps)) (\<lambda>i. Text ''ok'') (Text ''done''))
   \<and> tech_stack used_state = tech_stack initial_state
   \<and> testing_results used_state = testing_results initial_state
   \<and> used_state \<noteq> initial_state
   \<and> orchestrator (scenario (Parsed (plan_of three_steps)) (\<lambda>i. Text ''ok'') (Text ''done''))
        ''build'' True ''full'' \<lparr>project_state = used_state, trace = []\<rparr>
     = orchestrator (scenario (Parsed (plan_of three_steps)) (\<lambda>i. Text ''ok'') (Text ''done''))
        ''build'' True ''full'' \<lparr>project_state = initial_state, trace = []\<rparr>"
proof -
  let ?env = "scenario (Parsed (plan_of three_steps)) (\<lambda>i. Text ''ok'') (Text ''done'')"
  have a: "gemini_available ?env" by (simp add: scenario_def)
  have b: "tech_stack used_state = tech_stack initial_state"
    by (simp add: used_state_def initial_state_def)
  have c: "testing_results used_state = testing_results initial_state"
    by (simp add: used_state_def initial_state_def)
  have d: "used_state \<noteq> initial_state"
    by (simp add: used_state_def initial_state_def)
  from runs_are_deterministic[OF a b c, of "''build''" "plan_of three_steps" "''full''" "[]" True]
    a b c d
  show ?thesis by simp
qed

subsection \<open>Resetting\<close>

text \<open>
  C9. The reset operation is idempotent: from every project state, resetting twice in a
  row gives the same message and the same empty state as resetting once, and that state is
  the one the module starts with.
\<close>

theorem reset_project_idempotent:
  "reset_project (snd (reset_project s)) = reset_project s
   \<and> snd (reset_project s) = initial_state"
  by (simp add: reset_project_def initial_state_def)

text \<open>C9 at the state an earlier run left.\<close>

theorem reset_project_idempotent_witness:
  "reset_project (snd (reset_project used_state)) = reset_project used_state
   \<and> snd (reset_project used_state) = initial_state
   \<and> used_state \<noteq> initial_state"
proof -
  have "used_state \<noteq> initial_state"
    by (simp add: used_state_def initial_state_def)
  with reset_project_idempotent[of used_state] show ?thesis by blast
qed

subsection \<open>Showing the plan only\<close>

text \<open>
  C10. When the service is available and the planner gives a plan, a call with
  \<^verbatim>\<open>auto_execute\<close> false returns the plan as shown, followed by the hint; nothing is printed
  or called after the planner's prompt, so no step is started and no worker is called; yet
  the state has changed: \<^verbatim>\<open>current_project\<close> is the request, and \<^verbatim>\<open>requirements\<close>,
  \<^verbatim>\<open>architecture\<close>, \<^verbatim>\<open>implementation_plan\<close>, \<^verbatim>\<open>code_modules\<close> and \<^verbatim>\<open>deployment_plan\<close> are cleared.
\<close>

theorem plan_only_run_mutates_state:
  assumes "gemini_available env" and "planner_reply env = Parsed plan"
  shows "fst (orchestrator env ur False mode w) = show_plan env plan @ [Hint]
         \<and> trace (snd (orchestrator env ur False mode w))
             = trace w @ [Printed ''Orchestrator analyzing request...'',
                          Generate ''orchestrator'' [PStr ur, PStr mode]]
         \<and> project_state (snd (orchestrator env ur False mode w))
             = (project_state w)\<lparr>current_project := PStr ur, requirements := None,
                  architecture := None, implementation_plan := None, code_modules := [],
                  deployment_plan := None\<rparr>"
  using assms by (simp add: orchestrator_def start_run_world run_start_reset_def)

text \<open>
  C10 at a plan of three steps and the state an earlier run left: only the planner is
  called, no step is started, and the old artifacts are gone.
\<close>

theorem plan_only_run_mutates_state_witness:
  "gemini_available (scenario (Parsed (plan_of three_steps)) (\<lambda>i. Text ''ok'') (Text ''done''))
   \<and> planner_reply (scenario (Parsed (plan_of three_steps)) (\<lambda>i. Text ''ok'') (Text ''done''))
       = Parsed (plan_of three_steps)
   \<and> callers (trace (snd (orchestrator
        (scenario (Parsed (plan_of three_steps)) (\<lambda>i. Text ''ok'') (Text ''done''))
        ''build'' False ''full'' (fresh used_state)))) = [''orchestrator'']
   \<and> attempts (trace (snd (orchestrator
        (scenario (Parsed (plan_of three_steps)) (\<lambda>i. Text ''ok'') (Text ''done''))
        ''build'' False ''full'' (fresh used_state)))) = []
   \<and> project_state (snd (orchestrator
        (scenario (Parsed (plan_of three_steps)) (\<lambda>i. Text ''ok'') (Text ''done''))
        ''build'' False ''full'' (fresh used_state)))
       = \<lparr>current_project = PStr ''build'', requirements = None, architecture = None,
          tech_stack = None, implementation_plan = None, code_modules = [],
          testing_results = None, deployment_plan = None\<rparr>"
proof -
  let ?env = "scenario (Parsed (plan_of three_steps)) (\<lambda>i. Text ''ok'') (Text ''done'')"
  have a: "gemini_available ?env" by (simp add: scenario_def)
  have b: "planner_reply ?env = Parsed (plan_of three_steps)" by (simp add: scenario_def)
  from plan_only_run_mutates_state[OF a b, of "''build''" "''full''" "fresh used_state"] a b
  show ?thesis by (simp add: fresh_def used_state_def)
qed

end
